theory Spec2Isabelle
  imports Complex_Main
begin

section \<open>Values handed to the animation library\<close>

text \<open>
  \<^verbatim>\<open>effect2.py\<close> builds two kinds of library values and passes them on: colours made
  from a hex string, and a gradient made from control colours and a step count. The easing
  function it names is \<^verbatim>\<open>in_cubic\<close>. The effect never looks inside these values, so they are
  kept as plain data.
\<close>

datatype Color = Color string

record Gradient =
  stops :: "Color list"
  steps :: nat

datatype Easing = in_cubic

text \<open>Python exceptions that a constructor or \<^verbatim>\<open>__next__\<close> could hand to its caller.\<close>

datatype exn = ConfigurationError | StopIteration

section \<open>The library interface the effect calls\<close>

text \<open>
  The package \<^verbatim>\<open>terminaltexteffects\<close> is imported by \<^verbatim>\<open>effect2.py\<close>; its code is not part
  of the sources. Every library call that the effect makes is a field of the record below,
  so the effect is verified for every behaviour of the library. \<open>'c\<close> is the library's
  character object, \<open>'s\<close> its scene object. The characters of a terminal are a list in text
  order; a reference to a character is its index in that list.

  \<^item> \<open>Terminal\<close>: \<^verbatim>\<open>Terminal(effect.input_data, ...)\<close> followed by \<^verbatim>\<open>get_characters()\<close>,
    the characters built from the input text (the terminal configuration is fixed inside
    the field);
  \<^item> \<open>set_character_visibility\<close>: \<^verbatim>\<open>terminal.set_character_visibility(character, flag)\<close>;
  \<^item> \<open>is_active\<close>, \<open>input_symbol\<close>: the attributes \<^verbatim>\<open>character.is_active\<close> and
    \<^verbatim>\<open>character.input_symbol\<close>;
  \<^item> \<open>new_scene\<close>: \<^verbatim>\<open>character.animation.new_scene(ease=...)\<close>;
  \<^item> \<open>apply_gradient_to_symbols\<close>: \<^verbatim>\<open>scene.apply_gradient_to_symbols(gradient, symbols, n)\<close>;
  \<^item> \<open>activate_scene\<close>: \<^verbatim>\<open>character.animation.activate_scene(scene)\<close>;
  \<^item> \<open>update\<close>: \<^verbatim>\<open>BaseEffectIterator.update()\<close>, which works on the characters and on the
    list \<^verbatim>\<open>self.active_characters\<close>; the base class does not know the fields that the
    subclass adds, so it gets no access to them;
  \<^item> \<open>frame\<close>: the property \<^verbatim>\<open>BaseEffectIterator.frame\<close>, the rendered terminal.
\<close>

record ('c, 's) engine =
  Terminal :: "string \<Rightarrow> 'c list"
  set_character_visibility :: "'c \<Rightarrow> bool \<Rightarrow> 'c"
  is_active :: "'c \<Rightarrow> bool"
  input_symbol :: "'c \<Rightarrow> string"
  new_scene :: "'c \<Rightarrow> Easing \<Rightarrow> 's"
  apply_gradient_to_symbols :: "'s \<Rightarrow> Gradient \<Rightarrow> string \<Rightarrow> nat \<Rightarrow> 's"
  activate_scene :: "'c \<Rightarrow> 's \<Rightarrow> 'c"
  update :: "'c list \<Rightarrow> nat list \<Rightarrow> 'c list \<times> nat list"
  frame :: "'c list \<Rightarrow> string"

section \<open>The effect: configuration, effect object, iterator\<close>

text \<open>
  \<^verbatim>\<open>HorizontalCycleConfig\<close> (lines 31-58): a float \<^verbatim>\<open>speed\<close> with default 0.1 and an int
  \<^verbatim>\<open>amplitude\<close> with default 5. The float is only stored and compared with zero, never
  computed with, so it is a real number here.
\<close>

record HorizontalCycleConfig =
  speed :: real
  amplitude :: int

definition default_config :: HorizontalCycleConfig where
  "default_config = \<lparr>speed = 1 / 10, amplitude = 5\<rparr>"

text \<open>\<^verbatim>\<open>HorizontalCycle\<close> (lines 104-120): the effect object holds the input text and its
  configuration.\<close>

record HorizontalCycle =
  input_data :: string
  effect_config :: HorizontalCycleConfig

text \<open>
  \<^verbatim>\<open>HorizontalCycleIterator\<close> (lines 65-72). The base class constructor sets \<^verbatim>\<open>config\<close>,
  \<^verbatim>\<open>terminal\<close> and \<^verbatim>\<open>active_characters\<close>; the subclass adds the four motion fields.
  The fields \<^verbatim>\<open>self.amplitude\<close> and \<^verbatim>\<open>self.speed\<close> are \<open>it_amplitude\<close> and \<open>it_speed\<close>
  here, the plain names being those of the configuration's fields.
\<close>

record 'c HorizontalCycleIterator =
  config :: HorizontalCycleConfig
  terminal :: "'c list"
  active_characters :: "nat list"
  it_amplitude :: int
  it_speed :: real
  current_offset :: int
  direction :: int

text \<open>\<^verbatim>\<open>build\<close> (lines 74-76): every character of the terminal is made visible.\<close>

definition build :: "('c, 's) engine \<Rightarrow> 'c HorizontalCycleIterator \<Rightarrow> 'c HorizontalCycleIterator" where
  "build eng self =
     self\<lparr>terminal := map (\<lambda>character. set_character_visibility eng character True) (terminal self)\<rparr>"

text \<open>
  \<^verbatim>\<open>__init__\<close> (lines 66-72). The body has no \<^verbatim>\<open>raise\<close> and no test of the configuration:
  the result is always an iterator. The result type keeps the exception branch so that
  a rejected construction can be spoken about.
\<close>

definition HorizontalCycleIterator_init ::
    "('c, 's) engine \<Rightarrow> HorizontalCycle \<Rightarrow> exn + 'c HorizontalCycleIterator" where
  "HorizontalCycleIterator_init eng effect =
     Inr (build eng
       \<lparr>config = effect_config effect,
        terminal = Terminal eng (input_data effect),
        active_characters = [],
        it_amplitude = amplitude (effect_config effect),
        it_speed = speed (effect_config effect),
        current_offset = 0,
        direction = 1\<rparr>)"

text \<open>Lines 86-98: the scene given to one inactive character.\<close>

definition white_red_white :: Gradient where
  "white_red_white = \<lparr>stops = [Color ''ffffff'', Color ''ff0000'', Color ''ffffff''], steps = 10\<rparr>"

definition start_gradient_scene :: "('c, 's) engine \<Rightarrow> 'c \<Rightarrow> 'c" where
  "start_gradient_scene eng character =
     (let gradient_scn = new_scene eng character in_cubic;
          gradient_scn = apply_gradient_to_symbols eng gradient_scn white_red_white
                           (input_symbol eng character) 5
      in activate_scene eng character gradient_scn)"

text \<open>Lines 85-99: one pass of the loop body, for the character at index \<open>i\<close>.\<close>

definition visit :: "('c, 's) engine \<Rightarrow> nat \<Rightarrow> 'c HorizontalCycleIterator \<Rightarrow> 'c HorizontalCycleIterator" where
  "visit eng i self =
     (if \<not> is_active eng (terminal self ! i)
      then self\<lparr>terminal := (terminal self)[i := start_gradient_scene eng (terminal self ! i)],
                active_characters := active_characters self @ [i]\<rparr>
      else self)"

text \<open>Line 82: \<^verbatim>\<open>self.update()\<close>.\<close>

definition run_update :: "('c, 's) engine \<Rightarrow> 'c HorizontalCycleIterator \<Rightarrow> 'c HorizontalCycleIterator" where
  "run_update eng self =
     (case update eng (terminal self) (active_characters self) of
        (characters, active) \<Rightarrow> self\<lparr>terminal := characters, active_characters := active\<rparr>)"

text \<open>
  \<^verbatim>\<open>__next__\<close> (lines 81-101): update, then the loop over all characters, then the frame.
  There is no \<^verbatim>\<open>raise StopIteration\<close> in the body.
\<close>

definition HorizontalCycleIterator_next ::
    "('c, 's) engine \<Rightarrow> 'c HorizontalCycleIterator \<Rightarrow> (exn + string) \<times> 'c HorizontalCycleIterator" where
  "HorizontalCycleIterator_next eng self =
     (let self = run_update eng self;
          self = fold (visit eng) [0..<length (terminal self)] self
      in (Inr (frame eng (terminal self)), self))"

text \<open>The iterator after \<open>n\<close> calls of \<^verbatim>\<open>__next__\<close>, and what the next \<open>n\<close> calls return.\<close>

primrec ticks :: "('c, 's) engine \<Rightarrow> nat \<Rightarrow> 'c HorizontalCycleIterator \<Rightarrow> 'c HorizontalCycleIterator" where
  "ticks eng 0 self = self"
| "ticks eng (Suc n) self = snd (HorizontalCycleIterator_next eng (ticks eng n self))"

definition frames :: "('c, 's) engine \<Rightarrow> nat \<Rightarrow> 'c HorizontalCycleIterator \<Rightarrow> (exn + string) list" where
  "frames eng n self = map (\<lambda>k. fst (HorizontalCycleIterator_next eng (ticks eng k self))) [0..<n]"

text \<open>A whole run: construct the iterator from the effect, then pull \<open>n\<close> frames.\<close>

definition run_effect :: "('c, 's) engine \<Rightarrow> HorizontalCycle \<Rightarrow> nat \<Rightarrow> exn + (exn + string) list" where
  "run_effect eng effect n =
     (case HorizontalCycleIterator_init eng effect of
        Inl e \<Rightarrow> Inl e
      | Inr self \<Rightarrow> Inr (frames eng n self))"

section \<open>A library that behaves as the specification describes it\<close>

text \<open>
  One concrete library, written from sections 3, 4.1, 4.2 and 4.4 of the specification. It
  is used where a statement needs a definite library: for concrete runs and for the
  statements about the terminal and character model. The interpolated colour of a scene
  entry is not worked out (the specification gives no interpolation rule): an entry keeps
  the gradient it is drawn from and the glyph it colours.
\<close>

record Scene =
  scene_ease :: Easing
  scene_entries :: "(Gradient \<times> string) list"
  playhead :: nat

record Character =
  chr_symbol :: string
  chr_visible :: bool
  chr_active :: bool
  chr_scene :: "Scene option"

text \<open>Modelled from the spec: the library's terminal constructor is not in the sources.
  Section 4.1: "constructs one Character per input position, in order, all initially
  invisible".\<close>

definition Terminal_build :: "string \<Rightarrow> Character list" where
  "Terminal_build text =
     map (\<lambda>ch. \<lparr>chr_symbol = [ch], chr_visible = False, chr_active = False, chr_scene = None\<rparr>) text"

text \<open>Modelled from the spec: the library's visibility setter is not in the sources.
  Section 4.1: "idempotent toggle; has no effect on animation state".\<close>

definition Terminal_set_character_visibility :: "Character \<Rightarrow> bool \<Rightarrow> Character" where
  "Terminal_set_character_visibility c visible = c\<lparr>chr_visible := visible\<rparr>"

text \<open>Modelled from the spec: the library's scene constructor is not in the sources.
  Section 4.2: "creates an empty AnimationScene bound to the given Easing function;
  playhead = 0; not yet populated".\<close>

definition Animation_new_scene :: "Character \<Rightarrow> Easing \<Rightarrow> Scene" where
  "Animation_new_scene c ease = \<lparr>scene_ease = ease, scene_entries = [], playhead = 0\<rparr>"

text \<open>Modelled from the spec: the library's scene population is not in the sources.
  Section 4.2: "populates the scene with exactly step_count entries, each pairing one
  interpolated color from gradient (rendered as a colorized glyph of base_symbol) with a
  duration slice".\<close>

definition Scene_apply_gradient_to_symbols :: "Scene \<Rightarrow> Gradient \<Rightarrow> string \<Rightarrow> nat \<Rightarrow> Scene" where
  "Scene_apply_gradient_to_symbols scn gradient base_symbol step_count =
     scn\<lparr>scene_entries := replicate step_count (gradient, base_symbol)\<rparr>"

text \<open>Modelled from the spec: the library's scene activation is not in the sources.
  Section 4.2: "character's previous scene (if any) is discarded; character.is_active =
  true; playhead reset to 0".\<close>

definition Animation_activate_scene :: "Character \<Rightarrow> Scene \<Rightarrow> Character" where
  "Animation_activate_scene c scn = c\<lparr>chr_active := True, chr_scene := Some (scn\<lparr>playhead := 0\<rparr>)\<rparr>"

text \<open>Modelled from the spec: the library's per-tick advance is not in the sources.
  Section 4.2: "moves the owned scene's playhead forward one unit; when the playhead
  reaches the scene's end, character.is_active becomes false and the scene is dropped".\<close>

definition advance :: "Character \<Rightarrow> Character" where
  "advance c =
     (case chr_scene c of
        None \<Rightarrow> c
      | Some scn \<Rightarrow>
          if length (scene_entries scn) \<le> Suc (playhead scn)
          then c\<lparr>chr_active := False, chr_scene := None\<rparr>
          else c\<lparr>chr_scene := Some (scn\<lparr>playhead := Suc (playhead scn)\<rparr>)\<rparr>)"

text \<open>Modelled from the spec: the base iterator's update is not in the sources.
  Section 4.4: "advance all active scenes one tick". The working set is read as the
  characters that are active: one that finished its scene leaves it.\<close>

definition Base_update :: "Character list \<Rightarrow> nat list \<Rightarrow> Character list \<times> nat list" where
  "Base_update characters active =
     (let characters = fold (\<lambda>i cs. cs[i := advance (cs ! i)]) active characters
      in (characters, filter (\<lambda>i. chr_active (characters ! i)) active))"

text \<open>Modelled from the spec: the library's renderer is not in the sources.
  Section 4.1: "concatenating each visible Character's current Symbol in order
  (non-visible characters render as blank/space)".\<close>

definition render_frame :: "Character list \<Rightarrow> string" where
  "render_frame characters = concat (map (\<lambda>c. if chr_visible c then chr_symbol c else '' '') characters)"

definition spec_engine :: "(Character, Scene) engine" where
  "spec_engine =
     \<lparr>Terminal = Terminal_build,
      set_character_visibility = Terminal_set_character_visibility,
      is_active = chr_active,
      input_symbol = chr_symbol,
      new_scene = Animation_new_scene,
      apply_gradient_to_symbols = Scene_apply_gradient_to_symbols,
      activate_scene = Animation_activate_scene,
      update = Base_update,
      frame = render_frame\<rparr>"

section \<open>The frame producer as the specification words it\<close>

text \<open>
  Section 4.3: "offset += direction; if |offset| == amplitude, flip direction".
  Nothing in \<^verbatim>\<open>effect2.py\<close> does this; the definition follows the specification's words and
  is there to be compared with the code.
\<close>

definition motion_rule :: "'c HorizontalCycleIterator \<Rightarrow> 'c HorizontalCycleIterator" where
  "motion_rule self =
     (let offset = current_offset self + direction self
      in self\<lparr>current_offset := offset,
              direction := (if \<bar>offset\<bar> = it_amplitude self then - direction self else direction self)\<rparr>)"

text \<open>
  Section 4.4: "(1) advance motion state, (2) for each inactive Character, trigger a new
  animation scene, (3) advance all active scenes one tick, (4) return
  Terminal.render_frame()", in this order.
\<close>

definition next_as_specified ::
    "('c, 's) engine \<Rightarrow> 'c HorizontalCycleIterator \<Rightarrow> (exn + string) \<times> 'c HorizontalCycleIterator" where
  "next_as_specified eng self =
     (let self = motion_rule self;
          self = fold (visit eng) [0..<length (terminal self)] self;
          self = run_update eng self
      in (Inr (frame eng (terminal self)), self))"

section \<open>The scenario of the specification\<close>

text \<open>Section 8: input text "AB" with the default configuration (speed 0.1, amplitude 5),
  run on the library of the specification.\<close>

definition effect_AB :: HorizontalCycle where
  "effect_AB = \<lparr>input_data = ''AB'', effect_config = default_config\<rparr>"

definition iterator_AB :: "Character HorizontalCycleIterator" where
  "iterator_AB = projr (HorizontalCycleIterator_init spec_engine effect_AB)"

section \<open>The effect over a library whose calls may have several outcomes\<close>

text \<open>
  In the definitions above a library call is a function: it has one outcome for given
  arguments. To speak about two runs that might differ, the same code is written once more
  with every library call as a relation between its arguments and an outcome (reading an
  attribute stays a function). A run is then a derivation: it follows \<^verbatim>\<open>effect2.py\<close>
  statement by statement and takes, at every call, one of the outcomes the library allows.
\<close>

record ('c, 's) library =
  Terminal_call :: "string \<Rightarrow> 'c list \<Rightarrow> bool"
  set_character_visibility_call :: "'c \<times> bool \<Rightarrow> 'c \<Rightarrow> bool"
  is_active_attr :: "'c \<Rightarrow> bool"
  input_symbol_attr :: "'c \<Rightarrow> string"
  new_scene_call :: "'c \<times> Easing \<Rightarrow> 's \<Rightarrow> bool"
  apply_gradient_to_symbols_call :: "'s \<times> Gradient \<times> string \<times> nat \<Rightarrow> 's \<Rightarrow> bool"
  activate_scene_call :: "'c \<times> 's \<Rightarrow> 'c \<Rightarrow> bool"
  update_call :: "'c list \<times> nat list \<Rightarrow> 'c list \<times> nat list \<Rightarrow> bool"
  frame_call :: "'c list \<Rightarrow> string \<Rightarrow> bool"

text \<open>A call is deterministic when its arguments fix its outcome.\<close>

definition deterministic :: "('a \<Rightarrow> 'b \<Rightarrow> bool) \<Rightarrow> bool" where
  "deterministic r = (\<forall>x y z. r x y \<longrightarrow> r x z \<longrightarrow> y = z)"

definition deterministic_library :: "('c, 's) library \<Rightarrow> bool" where
  "deterministic_library lib =
     (deterministic (Terminal_call lib) \<and>
      deterministic (set_character_visibility_call lib) \<and>
      deterministic (new_scene_call lib) \<and>
      deterministic (apply_gradient_to_symbols_call lib) \<and>
      deterministic (activate_scene_call lib) \<and>
      deterministic (update_call lib) \<and>
      deterministic (frame_call lib))"

text \<open>
  \<^verbatim>\<open>__init__\<close> with \<^verbatim>\<open>build\<close> (lines 66-76): the terminal's characters are some outcome of
  the constructor call, and each of them is replaced by some outcome of
  \<^verbatim>\<open>set_character_visibility(character, True)\<close>.
\<close>

inductive init_run :: "('c, 's) library \<Rightarrow> HorizontalCycle \<Rightarrow> 'c HorizontalCycleIterator \<Rightarrow> bool"
  for lib effect where
  init_runI:
    "Terminal_call lib (input_data effect) characters \<Longrightarrow>
     list_all2 (\<lambda>character shown. set_character_visibility_call lib (character, True) shown)
       characters visible \<Longrightarrow>
     init_run lib effect
       \<lparr>config = effect_config effect,
        terminal = visible,
        active_characters = [],
        it_amplitude = amplitude (effect_config effect),
        it_speed = speed (effect_config effect),
        current_offset = 0,
        direction = 1\<rparr>"

text \<open>Lines 86-98: the three calls that give one character its scene.\<close>

inductive start_run :: "('c, 's) library \<Rightarrow> 'c \<Rightarrow> 'c \<Rightarrow> bool" for lib character where
  start_runI:
    "new_scene_call lib (character, in_cubic) gradient_scn \<Longrightarrow>
     apply_gradient_to_symbols_call lib
       (gradient_scn, white_red_white, input_symbol_attr lib character, 5) populated \<Longrightarrow>
     activate_scene_call lib (character, populated) started \<Longrightarrow>
     start_run lib character started"

text \<open>Lines 84-99: the loop over the characters, by index, in text order.\<close>

inductive visit_run ::
    "('c, 's) library \<Rightarrow> nat list \<Rightarrow> 'c HorizontalCycleIterator \<Rightarrow> 'c HorizontalCycleIterator \<Rightarrow> bool"
  for lib where
  visit_done: "visit_run lib [] self self"
| visit_active:
    "is_active_attr lib (terminal self ! i) \<Longrightarrow>
     visit_run lib rest self self' \<Longrightarrow>
     visit_run lib (i # rest) self self'"
| visit_inactive:
    "\<not> is_active_attr lib (terminal self ! i) \<Longrightarrow>
     start_run lib (terminal self ! i) started \<Longrightarrow>
     visit_run lib rest
       (self\<lparr>terminal := (terminal self)[i := started],
             active_characters := active_characters self @ [i]\<rparr>) self' \<Longrightarrow>
     visit_run lib (i # rest) self self'"

text \<open>\<^verbatim>\<open>__next__\<close> (lines 81-101): update, the loop, the frame.\<close>

inductive next_run ::
    "('c, 's) library \<Rightarrow> 'c HorizontalCycleIterator \<Rightarrow> string \<Rightarrow> 'c HorizontalCycleIterator \<Rightarrow> bool"
  for lib self where
  next_runI:
    "update_call lib (terminal self, active_characters self) (characters, active) \<Longrightarrow>
     visit_run lib [0..<length characters]
       (self\<lparr>terminal := characters, active_characters := active\<rparr>) self' \<Longrightarrow>
     frame_call lib (terminal self') rendered \<Longrightarrow>
     next_run lib self rendered self'"

text \<open>\<open>n\<close> calls one after the other, and a whole run from the effect object.\<close>

inductive pull_run ::
    "('c, 's) library \<Rightarrow> nat \<Rightarrow> 'c HorizontalCycleIterator \<Rightarrow> string list \<Rightarrow> bool"
  for lib where
  pull_none: "pull_run lib 0 self []"
| pull_more:
    "next_run lib self rendered self' \<Longrightarrow>
     pull_run lib n self' later \<Longrightarrow>
     pull_run lib (Suc n) self (rendered # later)"

inductive effect_run :: "('c, 's) library \<Rightarrow> HorizontalCycle \<Rightarrow> nat \<Rightarrow> string list \<Rightarrow> bool"
  for lib effect n where
  effect_runI:
    "init_run lib effect self \<Longrightarrow> pull_run lib n self shown \<Longrightarrow> effect_run lib effect n shown"

text \<open>A library of functions, seen as a library of calls with exactly one outcome each.\<close>

definition library_of :: "('c, 's) engine \<Rightarrow> ('c, 's) library" where
  "library_of eng =
     \<lparr>Terminal_call = (\<lambda>text characters. characters = Terminal eng text),
      set_character_visibility_call = (\<lambda>(c, flag) c'. c' = set_character_visibility eng c flag),
      is_active_attr = is_active eng,
      input_symbol_attr = input_symbol eng,
      new_scene_call = (\<lambda>(c, ease) scn. scn = new_scene eng c ease),
      apply_gradient_to_symbols_call =
        (\<lambda>(scn, gradient, symbols, n) scn'. scn' = apply_gradient_to_symbols eng scn gradient symbols n),
      activate_scene_call = (\<lambda>(c, scn) c'. c' = activate_scene eng c scn),
      update_call = (\<lambda>(characters, active) result. result = update eng characters active),
      frame_call = (\<lambda>characters rendered. rendered = frame eng characters)\<rparr>"

section \<open>What a call of the frame producer changes\<close>

text \<open>The loop body, the update and so the whole call leave the motion fields and the
  stored configuration as they are.\<close>

lemma visit_motion:
  "current_offset (visit eng i s) = current_offset s"
  "direction (visit eng i s) = direction s"
  "it_amplitude (visit eng i s) = it_amplitude s"
  "it_speed (visit eng i s) = it_speed s"
  "config (visit eng i s) = config s"
  by (simp_all add: visit_def)

lemma fold_visit_motion:
  "current_offset (fold (visit eng) is s) = current_offset s \<and>
   direction (fold (visit eng) is s) = direction s \<and>
   it_amplitude (fold (visit eng) is s) = it_amplitude s \<and>
   it_speed (fold (visit eng) is s) = it_speed s \<and>
   config (fold (visit eng) is s) = config s"
  by (induction "is" arbitrary: s) (simp_all add: visit_motion)

lemma run_update_motion:
  "current_offset (run_update eng s) = current_offset s"
  "direction (run_update eng s) = direction s"
  "it_amplitude (run_update eng s) = it_amplitude s"
  "it_speed (run_update eng s) = it_speed s"
  "config (run_update eng s) = config s"
  by (simp_all add: run_update_def split: prod.split)

lemma next_motion:
  "current_offset (snd (HorizontalCycleIterator_next eng s)) = current_offset s"
  "direction (snd (HorizontalCycleIterator_next eng s)) = direction s"
  "it_amplitude (snd (HorizontalCycleIterator_next eng s)) = it_amplitude s"
  "it_speed (snd (HorizontalCycleIterator_next eng s)) = it_speed s"
  "config (snd (HorizontalCycleIterator_next eng s)) = config s"
  by (simp_all add: HorizontalCycleIterator_next_def Let_def fold_visit_motion run_update_motion)

lemma ticks_motion:
  "current_offset (ticks eng n s) = current_offset s \<and>
   direction (ticks eng n s) = direction s \<and>
   it_amplitude (ticks eng n s) = it_amplitude s \<and>
   it_speed (ticks eng n s) = it_speed s \<and>
   config (ticks eng n s) = config s"
  by (induction n) (simp_all add: next_motion)

text \<open>The loop over the first \<open>k\<close> characters, in closed form.\<close>

lemma fold_visit_prefix:
  "k \<le> length (terminal s) \<Longrightarrow>
   fold (visit eng) [0..<k] s =
     s\<lparr>terminal := map (\<lambda>c. if is_active eng c then c else start_gradient_scene eng c)
                       (take k (terminal s)) @ drop k (terminal s),
       active_characters := active_characters s @
                       filter (\<lambda>i. \<not> is_active eng (terminal s ! i)) [0..<k]\<rparr>"
proof (induction k)
  case 0
  show ?case by simp
next
  case (Suc k)
  then have k: "k < length (terminal s)" by simp
  have nth: "(map (\<lambda>c. if is_active eng c then c else start_gradient_scene eng c)
                (take k (terminal s)) @ drop k (terminal s)) ! k = terminal s ! k"
    using k by (simp add: nth_append)
  have upd: "(map f (take k (terminal s)) @ drop k (terminal s))[k := v] =
             map f (take k (terminal s)) @ v # drop (Suc k) (terminal s)" for f v
    using k by (simp add: list_update_append Cons_nth_drop_Suc [symmetric])
  have tk: "take (Suc k) (terminal s) = take k (terminal s) @ [terminal s ! k]"
    using k by (simp add: take_Suc_conv_app_nth)
  have dk: "drop k (terminal s) = terminal s ! k # drop (Suc k) (terminal s)"
    using k by (simp add: Cons_nth_drop_Suc)
  from Suc have IH: "fold (visit eng) [0..<k] s = s\<lparr>terminal := map (\<lambda>c. if is_active eng c then c else start_gradient_scene eng c)
                       (take k (terminal s)) @ drop k (terminal s),
       active_characters := active_characters s @
                       filter (\<lambda>i. \<not> is_active eng (terminal s ! i)) [0..<k]\<rparr>" by simp
  show ?case
    apply (simp only: upt_Suc_append [OF le0] fold_append o_apply IH fold.simps id_apply)
    apply (simp add: visit_def nth upd tk)
    apply (simp add: dk [symmetric])
    done
qed

text \<open>The whole call in closed form, and what its result depends on: the characters and
  the working set, nothing else of the iterator.\<close>

lemma next_explicit:
  "HorizontalCycleIterator_next eng self =
     (case update eng (terminal self) (active_characters self) of
        (cs, act) \<Rightarrow>
          (Inr (frame eng (map (\<lambda>c. if is_active eng c then c else start_gradient_scene eng c) cs)),
           self\<lparr>terminal := map (\<lambda>c. if is_active eng c then c else start_gradient_scene eng c) cs,
                active_characters := act @ filter (\<lambda>i. \<not> is_active eng (cs ! i)) [0..<length cs]\<rparr>))"
  by (simp add: HorizontalCycleIterator_next_def run_update_def Let_def fold_visit_prefix
      split: prod.split)

lemma next_display:
  assumes "terminal s = terminal t" "active_characters s = active_characters t"
  shows "fst (HorizontalCycleIterator_next eng s) = fst (HorizontalCycleIterator_next eng t)"
    and "terminal (snd (HorizontalCycleIterator_next eng s)) = terminal (snd (HorizontalCycleIterator_next eng t))"
    and "active_characters (snd (HorizontalCycleIterator_next eng s)) =
         active_characters (snd (HorizontalCycleIterator_next eng t))"
proof -
  obtain cs act where u: "update eng (terminal t) (active_characters t) = (cs, act)"
    by (cases "update eng (terminal t) (active_characters t)")
  then have u': "update eng (terminal s) (active_characters s) = (cs, act)"
    by (simp only: assms)
  show "fst (HorizontalCycleIterator_next eng s) = fst (HorizontalCycleIterator_next eng t)"
    by (simp add: next_explicit u u')
  show "terminal (snd (HorizontalCycleIterator_next eng s)) = terminal (snd (HorizontalCycleIterator_next eng t))"
    by (simp add: next_explicit u u')
  show "active_characters (snd (HorizontalCycleIterator_next eng s)) =
         active_characters (snd (HorizontalCycleIterator_next eng t))"
    by (simp add: next_explicit u u')
qed

lemma ticks_display:
  assumes "terminal s = terminal t" "active_characters s = active_characters t"
  shows "terminal (ticks eng n s) = terminal (ticks eng n t) \<and>
         active_characters (ticks eng n s) = active_characters (ticks eng n t)"
proof (induction n)
  case 0
  show ?case by (simp add: assms)
next
  case (Suc n)
  then have "terminal (ticks eng n s) = terminal (ticks eng n t)"
    and "active_characters (ticks eng n s) = active_characters (ticks eng n t)"
    by simp_all
  then show ?case
    using next_display(2,3) [of "ticks eng n s" "ticks eng n t" eng] by simp
qed

lemma frames_display:
  assumes "terminal s = terminal t" "active_characters s = active_characters t"
  shows "frames eng n s = frames eng n t"
  unfolding frames_def
proof (rule map_cong [OF refl])
  fix k
  show "fst (HorizontalCycleIterator_next eng (ticks eng k s)) =
        fst (HorizontalCycleIterator_next eng (ticks eng k t))"
    using ticks_display [OF assms, of eng k] next_display(1) [of "ticks eng k s" "ticks eng k t" eng]
    by simp
qed

section \<open>Runs of the scenario, evaluated\<close>

lemmas spec_defs = spec_engine_def Terminal_build_def Terminal_set_character_visibility_def
  Animation_new_scene_def Scene_apply_gradient_to_symbols_def Animation_activate_scene_def
  advance_def Base_update_def render_frame_def

lemma iterator_AB_eq:
  "iterator_AB =
     \<lparr>config = default_config,
      terminal = [\<lparr>chr_symbol = ''A'', chr_visible = True, chr_active = False, chr_scene = None\<rparr>,
                  \<lparr>chr_symbol = ''B'', chr_visible = True, chr_active = False, chr_scene = None\<rparr>],
      active_characters = [],
      it_amplitude = 5, it_speed = 1 / 10, current_offset = 0, direction = 1\<rparr>"
  by (simp add: iterator_AB_def HorizontalCycleIterator_init_def build_def effect_AB_def
      default_config_def spec_defs)

lemma init_AB: "HorizontalCycleIterator_init spec_engine effect_AB = Inr iterator_AB"
  by (simp add: iterator_AB_def HorizontalCycleIterator_init_def)

lemma next_AB_scenes:
  "map (map_option playhead \<circ> chr_scene) (terminal (snd (HorizontalCycleIterator_next spec_engine iterator_AB)))
     = [Some 0, Some 0]"
  by (simp add: next_explicit iterator_AB_eq spec_defs start_gradient_scene_def)

lemma spec_AB_scenes:
  "map (map_option playhead \<circ> chr_scene) (terminal (snd (next_as_specified spec_engine iterator_AB)))
     = [Some 1, Some 1]"
  by (simp add: next_as_specified_def motion_rule_def run_update_def iterator_AB_eq spec_defs start_gradient_scene_def
      fold_visit_prefix Let_def)

lemma init_eq:
  "HorizontalCycleIterator_init eng effect = Inr self \<Longrightarrow>
   current_offset self = 0 \<and> direction self = 1 \<and>
   it_amplitude self = amplitude (effect_config effect) \<and>
   it_speed self = speed (effect_config effect) \<and>
   config self = effect_config effect \<and>
   terminal self = map (\<lambda>c. set_character_visibility eng c True) (Terminal eng (input_data effect)) \<and>
   active_characters self = []"
  by (auto simp add: HorizontalCycleIterator_init_def build_def)

lemma next_returns_frame:
  "fst (HorizontalCycleIterator_next eng s) = Inr (frame eng (terminal (snd (HorizontalCycleIterator_next eng s))))"
  by (simp add: HorizontalCycleIterator_next_def Let_def)

lemma motion_rule_AB:
  "current_offset ((motion_rule ^^ 5) iterator_AB) = 5 \<and> direction ((motion_rule ^^ 5) iterator_AB) = - 1"
  by (simp add: numeral_eq_Suc motion_rule_def iterator_AB_eq Let_def)

section \<open>Runs over a library of calls\<close>

text \<open>
  Three facts about the derivations: over a deterministic library each part of a run has
  one outcome; over a library of functions the derivations are exactly the runs computed by
  the functions above; and a library call with two outcomes gives runs that differ, so
  nothing in the derivations themselves forces one outcome.
\<close>

lemma deterministicD: "deterministic r \<Longrightarrow> r x y \<Longrightarrow> r x z \<Longrightarrow> y = z"
  unfolding deterministic_def by blast

lemma list_all2_deterministic:
  assumes "deterministic r"
  shows "list_all2 (\<lambda>c c'. r (c, v) c') cs a \<Longrightarrow> list_all2 (\<lambda>c c'. r (c, v) c') cs b \<Longrightarrow> a = b"
proof (induction cs arbitrary: a b)
  case Nil
  then show ?case by simp
next
  case (Cons c cs)
  from Cons.prems(1) obtain x xs where a: "a = x # xs" "r (c, v) x"
    "list_all2 (\<lambda>c c'. r (c, v) c') cs xs"
    by (auto simp add: list_all2_Cons1)
  from Cons.prems(2) obtain y ys where b: "b = y # ys" "r (c, v) y"
    "list_all2 (\<lambda>c c'. r (c, v) c') cs ys"
    by (auto simp add: list_all2_Cons1)
  have "x = y" using assms a(2) b(2) by (rule deterministicD)
  moreover have "xs = ys" using a(3) b(3) by (rule Cons.IH)
  ultimately show ?case using a(1) b(1) by simp
qed

lemma init_run_deterministic:
  assumes "deterministic_library lib" and "init_run lib effect a" and "init_run lib effect b"
  shows "a = b"
proof -
  from assms(2) obtain cs vs where a: "Terminal_call lib (input_data effect) cs"
    "list_all2 (\<lambda>c c'. set_character_visibility_call lib (c, True) c') cs vs"
    "terminal a = vs" "a = a\<lparr>terminal := vs\<rparr>"
    "a\<lparr>terminal := []\<rparr> = \<lparr>config = effect_config effect, terminal = [], active_characters = [],
        it_amplitude = amplitude (effect_config effect), it_speed = speed (effect_config effect),
        current_offset = 0, direction = 1\<rparr>"
    by (auto elim!: init_run.cases)
  from assms(3) obtain cs' vs' where b: "Terminal_call lib (input_data effect) cs'"
    "list_all2 (\<lambda>c c'. set_character_visibility_call lib (c, True) c') cs' vs'"
    "terminal b = vs'" "b = b\<lparr>terminal := vs'\<rparr>"
    "b\<lparr>terminal := []\<rparr> = \<lparr>config = effect_config effect, terminal = [], active_characters = [],
        it_amplitude = amplitude (effect_config effect), it_speed = speed (effect_config effect),
        current_offset = 0, direction = 1\<rparr>"
    by (auto elim!: init_run.cases)
  have d1: "deterministic (Terminal_call lib)" and d2: "deterministic (set_character_visibility_call lib)"
    using assms(1) by (simp_all add: deterministic_library_def)
  have "cs = cs'" using d1 a(1) b(1) by (rule deterministicD)
  then have "vs = vs'" using list_all2_deterministic [OF d2] a(2) b(2) by blast
  moreover have "a\<lparr>terminal := []\<rparr> = b\<lparr>terminal := []\<rparr>" using a(5) b(5) by simp
  ultimately show ?thesis using a(3) b(3)
    by (cases a, cases b) simp
qed

lemma start_run_deterministic:
  assumes "deterministic_library lib" and "start_run lib c a" and "start_run lib c b"
  shows "a = b"
proof -
  from assms(2) obtain s1 p1 where a: "new_scene_call lib (c, in_cubic) s1"
    "apply_gradient_to_symbols_call lib (s1, white_red_white, input_symbol_attr lib c, 5) p1"
    "activate_scene_call lib (c, p1) a"
    by (auto elim: start_run.cases)
  from assms(3) obtain s2 p2 where b: "new_scene_call lib (c, in_cubic) s2"
    "apply_gradient_to_symbols_call lib (s2, white_red_white, input_symbol_attr lib c, 5) p2"
    "activate_scene_call lib (c, p2) b"
    by (auto elim: start_run.cases)
  have d: "deterministic (new_scene_call lib)" "deterministic (apply_gradient_to_symbols_call lib)"
    "deterministic (activate_scene_call lib)"
    using assms(1) by (simp_all add: deterministic_library_def)
  have "s1 = s2" using d(1) a(1) b(1) by (rule deterministicD)
  then have "p1 = p2" using deterministicD [OF d(2) a(2)] b(2) by simp
  then show ?thesis using deterministicD [OF d(3) a(3)] b(3) by simp
qed

inductive_cases visit_run_NilE: "visit_run lib [] s b"
inductive_cases visit_run_ConsE: "visit_run lib (i # rest) s b"

lemma visit_run_deterministic:
  assumes det: "deterministic_library lib"
  shows "visit_run lib js s a \<Longrightarrow> visit_run lib js s b \<Longrightarrow> a = b"
proof (induction arbitrary: b rule: visit_run.induct)
  case (visit_done self)
  then show ?case by (auto elim: visit_run_NilE)
next
  case (visit_active self i rest self')
  from visit_active.prems visit_active.hyps(1) have "visit_run lib rest self b"
    by (auto elim: visit_run_ConsE)
  then show ?case by (rule visit_active.IH)
next
  case (visit_inactive self i started rest self')
  from visit_inactive.prems visit_inactive.hyps(1) obtain started' where
    s: "start_run lib (terminal self ! i) started'" and
    r: "visit_run lib rest (self\<lparr>terminal := (terminal self)[i := started'],
             active_characters := active_characters self @ [i]\<rparr>) b"
    by (auto elim: visit_run_ConsE)
  have "started = started'" using det visit_inactive.hyps(2) s by (rule start_run_deterministic)
  with r show ?case by (intro visit_inactive.IH) simp
qed

lemma next_run_deterministic:
  assumes det: "deterministic_library lib" and "next_run lib s f a" and "next_run lib s g b"
  shows "f = g \<and> a = b"
proof -
  from assms(2) obtain cs act where a: "update_call lib (terminal s, active_characters s) (cs, act)"
    "visit_run lib [0..<length cs] (s\<lparr>terminal := cs, active_characters := act\<rparr>) a"
    "frame_call lib (terminal a) f"
    by (auto elim: next_run.cases)
  from assms(3) obtain cs' act' where b: "update_call lib (terminal s, active_characters s) (cs', act')"
    "visit_run lib [0..<length cs'] (s\<lparr>terminal := cs', active_characters := act'\<rparr>) b"
    "frame_call lib (terminal b) g"
    by (auto elim: next_run.cases)
  have d: "deterministic (update_call lib)" "deterministic (frame_call lib)"
    using det by (simp_all add: deterministic_library_def)
  have "(cs, act) = (cs', act')" using d(1) a(1) b(1) by (rule deterministicD)
  then have "a = b" using visit_run_deterministic [OF det a(2)] b(2) by simp
  moreover from this have "f = g" using deterministicD [OF d(2) a(3)] b(3) by simp
  ultimately show ?thesis by simp
qed

inductive_cases pull_run_0E: "pull_run lib 0 s fs"
inductive_cases pull_run_SucE: "pull_run lib (Suc n) s fs"

lemma pull_run_deterministic:
  assumes det: "deterministic_library lib"
  shows "pull_run lib n s fs \<Longrightarrow> pull_run lib n s gs \<Longrightarrow> fs = gs"
proof (induction arbitrary: gs rule: pull_run.induct)
  case (pull_none self)
  then show ?case by (auto elim: pull_run_0E)
next
  case (pull_more self rendered self' n later)
  from pull_more.prems obtain g t more where g: "gs = g # more" "next_run lib self g t"
    "pull_run lib n t more"
    by (auto elim: pull_run_SucE)
  have eq: "rendered = g \<and> self' = t"
    using det pull_more.hyps(1) g(2) by (rule next_run_deterministic)
  then have "later = more" using g(3) by (intro pull_more.IH) simp
  with eq g(1) show ?case by simp
qed

lemma visit_run_fold: "visit_run (library_of eng) js s (fold (visit eng) js s)"
proof (induction js arbitrary: s)
  case Nil
  show ?case by (simp add: visit_done)
next
  case (Cons i js)
  show ?case
  proof (cases "is_active eng (terminal s ! i)")
    case True
    then have "visit eng i s = s" by (simp add: visit_def)
    with True Cons [of s] show ?thesis
      by (simp add: visit_active library_of_def)
  next
    case False
    have st: "start_run (library_of eng) (terminal s ! i) (start_gradient_scene eng (terminal s ! i))"
      by (rule start_runI [where gradient_scn = "new_scene eng (terminal s ! i) in_cubic"
            and populated = "apply_gradient_to_symbols eng (new_scene eng (terminal s ! i) in_cubic)
                  white_red_white (input_symbol eng (terminal s ! i)) 5"])
        (simp_all add: library_of_def start_gradient_scene_def)
    from False have na: "\<not> is_active_attr (library_of eng) (terminal s ! i)"
      by (simp add: library_of_def)
    from False have v: "visit eng i s = s\<lparr>terminal := (terminal s)[i := start_gradient_scene eng (terminal s ! i)],
                active_characters := active_characters s @ [i]\<rparr>"
      by (simp add: visit_def)
    show ?thesis
      using visit_inactive [OF na st Cons [of "visit eng i s", unfolded v]] by (simp add: v)
  qed
qed

lemma next_run_next:
  "next_run (library_of eng) s (frame eng (terminal (snd (HorizontalCycleIterator_next eng s))))
     (snd (HorizontalCycleIterator_next eng s))"
proof -
  obtain cs act where u: "update eng (terminal s) (active_characters s) = (cs, act)"
    by (cases "update eng (terminal s) (active_characters s)")
  have n: "snd (HorizontalCycleIterator_next eng s) =
           fold (visit eng) [0..<length cs] (s\<lparr>terminal := cs, active_characters := act\<rparr>)"
    by (simp add: HorizontalCycleIterator_next_def run_update_def u Let_def)
  show ?thesis
    unfolding n
    by (rule next_runI [where characters = cs and active = act])
      (simp_all add: library_of_def u visit_run_fold [unfolded library_of_def])
qed

lemma ticks_Suc_shift:
  "ticks eng (Suc n) s = ticks eng n (snd (HorizontalCycleIterator_next eng s))"
  by (induction n) simp_all

lemma pull_run_ticks:
  "pull_run (library_of eng) n s (map (\<lambda>k. frame eng (terminal (ticks eng (Suc k) s))) [0..<n])"
proof (induction n arbitrary: s)
  case 0
  show ?case by (simp add: pull_none)
next
  case (Suc n)
  have "pull_run (library_of eng) (Suc n) s
          (frame eng (terminal (snd (HorizontalCycleIterator_next eng s))) #
           map (\<lambda>k. frame eng (terminal (ticks eng (Suc k) (snd (HorizontalCycleIterator_next eng s))))) [0..<n])"
    by (rule pull_more [OF next_run_next Suc])
  moreover have "map (\<lambda>k. frame eng (terminal (ticks eng (Suc k) s))) [0..<Suc n] =
      frame eng (terminal (snd (HorizontalCycleIterator_next eng s))) #
      map (\<lambda>k. frame eng (terminal (ticks eng (Suc k) (snd (HorizontalCycleIterator_next eng s))))) [0..<n]"
    by (simp only: map_upt_Suc ticks_Suc_shift list.simps) simp
  ultimately show ?case by simp
qed

lemma init_run_init:
  "HorizontalCycleIterator_init eng effect = Inr self \<Longrightarrow> init_run (library_of eng) effect self"
proof -
  assume "HorizontalCycleIterator_init eng effect = Inr self"
  then have self: "self = \<lparr>config = effect_config effect,
        terminal = map (\<lambda>c. set_character_visibility eng c True) (Terminal eng (input_data effect)),
        active_characters = [],
        it_amplitude = amplitude (effect_config effect),
        it_speed = speed (effect_config effect),
        current_offset = 0,
        direction = 1\<rparr>"
    by (auto simp add: HorizontalCycleIterator_init_def build_def)
  show ?thesis
    unfolding self
    by (rule init_runI [where characters = "Terminal eng (input_data effect)"])
      (simp_all add: library_of_def list_all2_map2 list_all2_same)
qed

lemma effect_run_run_effect:
  "run_effect eng effect n = Inr shown \<Longrightarrow> effect_run (library_of eng) effect n (map projr shown)"
proof -
  assume r: "run_effect eng effect n = Inr shown"
  obtain self where i: "HorizontalCycleIterator_init eng effect = Inr self"
    by (simp add: HorizontalCycleIterator_init_def)
  with r have "shown = frames eng n self" by (simp add: run_effect_def)
  then have "map projr shown = map (\<lambda>k. frame eng (terminal (ticks eng (Suc k) self))) [0..<n]"
    by (simp add: frames_def HorizontalCycleIterator_next_def Let_def)
  then show ?thesis
    using effect_runI [OF init_run_init [OF i] pull_run_ticks [of eng n self]] by simp
qed

lemma library_of_deterministic: "deterministic_library (library_of eng)"
proof -
  have "deterministic (update_call (library_of eng))"
    unfolding deterministic_def
  proof (intro allI impI)
    fix x :: "'a list \<times> nat list" and y z :: "'a list \<times> nat list"
    assume "update_call (library_of eng) x y" and "update_call (library_of eng) x z"
    then show "y = z" by (cases x) (simp add: library_of_def)
  qed
  then show ?thesis
    by (simp add: deterministic_library_def) (simp add: deterministic_def library_of_def)
qed

lemma effect_run_library_of:
  "effect_run (library_of eng) effect n shown \<longleftrightarrow> run_effect eng effect n = Inr (map Inr shown)"
proof
  assume "run_effect eng effect n = Inr (map Inr shown)"
  then show "effect_run (library_of eng) effect n shown"
    using effect_run_run_effect [of eng effect n "map Inr shown"] by (simp add: comp_def)
next
  assume "effect_run (library_of eng) effect n shown"
  then obtain s where s: "init_run (library_of eng) effect s" "pull_run (library_of eng) n s shown"
    by (auto elim: effect_run.cases)
  obtain self where i: "HorizontalCycleIterator_init eng effect = Inr self"
    by (simp add: HorizontalCycleIterator_init_def)
  have "s = self"
    using library_of_deterministic s(1) init_run_init [OF i] by (rule init_run_deterministic)
  with s(2) have "shown = map (\<lambda>k. frame eng (terminal (ticks eng (Suc k) self))) [0..<n]"
    using pull_run_deterministic [OF library_of_deterministic _ pull_run_ticks [of eng n self]]
    by simp
  then show "run_effect eng effect n = Inr (map Inr shown)"
    by (simp add: run_effect_def i frames_def HorizontalCycleIterator_next_def Let_def)
qed

lemma run_effect_AB:
  "run_effect spec_engine effect_AB (Suc (Suc 0)) = Inr [Inr ''AB'', Inr ''AB'']"
proof -
  have "frames spec_engine (Suc (Suc 0)) iterator_AB = [Inr ''AB'', Inr ''AB'']"
    by (simp add: frames_def next_explicit iterator_AB_eq spec_defs
        start_gradient_scene_def white_red_white_def)
  then show ?thesis by (simp only: run_effect_def init_AB sum.case)
qed

lemma effect_run_two_outcomes:
  "effect_run ((library_of spec_engine)\<lparr>frame_call := \<lambda>characters rendered. rendered = ''x'' \<or> rendered = ''y''\<rparr>)
     \<lparr>input_data = [], effect_config = default_config\<rparr> (Suc 0) [r]
   \<longleftrightarrow> r = ''x'' \<or> r = ''y''"
proof -
  let ?lib = "(library_of spec_engine)\<lparr>frame_call := \<lambda>characters rendered. rendered = ''x'' \<or> rendered = ''y''\<rparr>"
  let ?effect = "\<lparr>input_data = [], effect_config = default_config\<rparr>"
  let ?self = "\<lparr>config = default_config, terminal = [] :: Character list, active_characters = [],
       it_amplitude = amplitude default_config, it_speed = speed default_config,
       current_offset = 0, direction = 1\<rparr>"
  have i: "init_run ?lib ?effect ?self"
    using init_runI [of ?lib ?effect "[]" "[]"] by (simp add: library_of_def spec_defs)
  have v: "visit_run ?lib [0..<length ([] :: Character list)] (?self\<lparr>terminal := [], active_characters := []\<rparr>) ?self"
    by (simp add: visit_done)
  have u: "update_call ?lib (terminal ?self, active_characters ?self) ([], [])"
    by (simp add: library_of_def spec_defs)
  show ?thesis
  proof
    assume "effect_run ?lib ?effect (Suc 0) [r]"
    then obtain s where "pull_run ?lib (Suc 0) s [r]" by (auto elim: effect_run.cases)
    then obtain s' where "next_run ?lib s r s'" by (auto elim: pull_run_SucE)
    then have "frame_call ?lib (terminal s') r" by (auto elim: next_run.cases)
    then show "r = ''x'' \<or> r = ''y''" by simp
  next
    assume "r = ''x'' \<or> r = ''y''"
    then have "frame_call ?lib (terminal ?self) r" by simp
    with u v have "next_run ?lib ?self r ?self" by (rule next_runI)
    then have "pull_run ?lib (Suc 0) ?self [r]" using pull_none by (rule pull_more)
    with i show "effect_run ?lib ?effect (Suc 0) [r]" by (rule effect_runI)
  qed
qed

section \<open>The claims\<close>

subsection \<open>C1: the oscillation rule\<close>

text \<open>
  C1 says that every tick adds \<open>direction\<close> to \<open>current_offset\<close> and negates \<open>direction\<close>
  exactly when \<open>|current_offset|\<close> equals the amplitude. The module's docstring promises the
  same motion ("Moves the input text left to right and back in a continuous cycle"), and
  \<^verbatim>\<open>__init__\<close> sets up \<open>current_offset = 0\<close> and \<open>direction = 1\<close> for it. But no statement of
  \<^verbatim>\<open>effect2.py\<close> assigns either field again. On the scenario "AB" with amplitude 5: after
  the first call the offset is still 0 where the rule gives 1, and after five calls offset
  and direction are still 0 and 1 where the rule gives 5 and -1.
\<close>

theorem offset_not_advanced:
  "current_offset (snd (HorizontalCycleIterator_next spec_engine iterator_AB)) = 0 \<and>
   current_offset (motion_rule iterator_AB) = 1 \<and>
   current_offset (ticks spec_engine 5 iterator_AB) = 0 \<and>
   direction (ticks spec_engine 5 iterator_AB) = 1 \<and>
   current_offset ((motion_rule ^^ 5) iterator_AB) = 5 \<and>
   direction ((motion_rule ^^ 5) iterator_AB) = - 1"
  using motion_rule_AB
  by (simp add: next_motion ticks_motion) (simp add: iterator_AB_eq motion_rule_def)

subsection \<open>C2: the offset stays within the amplitude\<close>

text \<open>
  C2: for a valid configuration (speed > 0, amplitude > 0) the offset of the iterator
  satisfies \<open>|current_offset| \<le> amplitude\<close> after any number \<open>n\<close> of calls of \<^verbatim>\<open>__next__\<close>,
  whatever the library does. (The offset is in fact 0 throughout.)
\<close>

theorem offset_bounded:
  assumes "0 < speed (effect_config effect)"
    and "0 < amplitude (effect_config effect)"
    and "HorizontalCycleIterator_init eng effect = Inr self"
  shows "\<bar>current_offset (ticks eng n self)\<bar> \<le> it_amplitude (ticks eng n self)"
proof -
  have "current_offset (ticks eng n self) = 0"
    using init_eq [OF assms(3)] by (simp add: ticks_motion)
  moreover have "it_amplitude (ticks eng n self) = amplitude (effect_config effect)"
    using init_eq [OF assms(3)] by (simp add: ticks_motion)
  ultimately show ?thesis using assms(2) by simp
qed

theorem offset_bounded_witness:
  "0 < speed (effect_config effect_AB) \<and> 0 < amplitude (effect_config effect_AB) \<and>
   HorizontalCycleIterator_init spec_engine effect_AB = Inr iterator_AB \<and>
   \<bar>current_offset (ticks spec_engine 3 iterator_AB)\<bar> \<le> it_amplitude (ticks spec_engine 3 iterator_AB)"
proof -
  have s: "0 < speed (effect_config effect_AB)" by (simp add: effect_AB_def default_config_def)
  have a: "0 < amplitude (effect_config effect_AB)" by (simp add: effect_AB_def default_config_def)
  show ?thesis using s a init_AB offset_bounded [OF s a init_AB, of 3] by simp
qed

subsection \<open>C3: what the constructor does with a bad configuration\<close>

text \<open>
  C3 as stated says that a construction with \<open>speed \<le> 0\<close> or \<open>amplitude \<le> 0\<close> raises
  ConfigurationError. It does not: with amplitude 0, and with speed -1 and amplitude -3,
  the constructor returns an iterator.
\<close>

theorem init_amplitude_zero_counterexample:
  "HorizontalCycleIterator_init spec_engine
     \<lparr>input_data = ''AB'', effect_config = \<lparr>speed = 1 / 10, amplitude = 0\<rparr>\<rparr> \<noteq> Inl ConfigurationError \<and>
   HorizontalCycleIterator_init spec_engine
     \<lparr>input_data = ''AB'', effect_config = \<lparr>speed = - 1, amplitude = - 3\<rparr>\<rparr> \<noteq> Inl ConfigurationError"
  by (simp add: HorizontalCycleIterator_init_def)

text \<open>
  C3, amended: the constructor tests nothing. For every configuration it returns an
  iterator that stores speed and amplitude as given, with offset 0 and direction 1, and no
  later call of \<^verbatim>\<open>__next__\<close> raises ConfigurationError either.
\<close>

theorem init_never_rejects:
  "\<exists>self. HorizontalCycleIterator_init eng effect = Inr self \<and>
     it_amplitude self = amplitude (effect_config effect) \<and>
     it_speed self = speed (effect_config effect) \<and>
     current_offset self = 0 \<and> direction self = 1 \<and>
     (\<forall>n. fst (HorizontalCycleIterator_next eng (ticks eng n self)) \<noteq> Inl ConfigurationError)"
  by (simp add: HorizontalCycleIterator_init_def build_def next_returns_frame)

subsection \<open>C4: the steps of one call, and their order\<close>

text \<open>
  C4 as stated puts the steps in the order: scenes for the inactive characters first, then
  the advance of all active scenes, then the frame. The code advances first
  (\<^verbatim>\<open>self.update()\<close> is the first statement) and starts the new scenes after that, so a
  scene started in a call is not advanced in that call. On the scenario "AB", first call:
  the code leaves both playheads at 0, the stated order leaves them at 1.
\<close>

theorem next_order_counterexample:
  "terminal (snd (HorizontalCycleIterator_next spec_engine iterator_AB)) \<noteq>
   terminal (snd (next_as_specified spec_engine iterator_AB)) \<and>
   map (map_option playhead \<circ> chr_scene)
     (terminal (snd (HorizontalCycleIterator_next spec_engine iterator_AB))) = [Some 0, Some 0] \<and>
   map (map_option playhead \<circ> chr_scene)
     (terminal (snd (next_as_specified spec_engine iterator_AB))) = [Some 1, Some 1]"
proof -
  have a: "map (map_option playhead \<circ> chr_scene)
     (terminal (snd (HorizontalCycleIterator_next spec_engine iterator_AB))) = [Some 0, Some 0]"
    by (rule next_AB_scenes)
  have b: "map (map_option playhead \<circ> chr_scene)
     (terminal (snd (next_as_specified spec_engine iterator_AB))) = [Some 1, Some 1]"
    by (rule spec_AB_scenes)
  have "terminal (snd (HorizontalCycleIterator_next spec_engine iterator_AB)) \<noteq>
        terminal (snd (next_as_specified spec_engine iterator_AB))"
  proof
    assume "terminal (snd (HorizontalCycleIterator_next spec_engine iterator_AB)) =
            terminal (snd (next_as_specified spec_engine iterator_AB))"
    with a b have "[Some (0::nat), Some 0] = [Some 1, Some 1]" by simp
    then show False by simp
  qed
  with a b show ?thesis by simp
qed

text \<open>
  C4, amended: each call (1) runs the library's update on the characters and the working
  set, (2) gives every character that is then inactive a new scene, made with the easing
  \<open>in_cubic\<close> from the gradient white, red (ff0000), white with 10 steps, the character's
  input symbol and the number 5, activates it and appends the character to the working set
  in text order, and (3) returns the frame of the resulting characters. A character that is
  active after the update is left as it is. This holds for every library.
\<close>

theorem next_order_of_steps:
  "HorizontalCycleIterator_next eng self =
     (case update eng (terminal self) (active_characters self) of
        (cs, act) \<Rightarrow>
          (let started =
                 map (\<lambda>c. if is_active eng c then c
                          else activate_scene eng c
                                 (apply_gradient_to_symbols eng (new_scene eng c in_cubic)
                                    \<lparr>stops = [Color ''ffffff'', Color ''ff0000'', Color ''ffffff''], steps = 10\<rparr>
                                    (input_symbol eng c) 5)) cs
           in (Inr (frame eng started),
               self\<lparr>terminal := started,
                    active_characters := act @ filter (\<lambda>i. \<not> is_active eng (cs ! i)) [0..<length cs]\<rparr>)))"
  unfolding next_explicit start_gradient_scene_def white_red_white_def Let_def
  by (rule refl)

subsection \<open>C5: characters are invisible until build has run\<close>

text \<open>
  C5, on the terminal and character model of the specification: the characters built from
  a text are as many as the text is long and all invisible; \<^verbatim>\<open>build\<close> makes every
  character of the terminal visible and keeps their number; the constructor calls it, so
  the iterator it returns, from which the first frame is asked, has only visible
  characters. For "AB" these are two characters, invisible before and visible after.
\<close>

theorem build_makes_visible:
  "list_all (\<lambda>c. \<not> chr_visible c) (Terminal spec_engine text) \<and>
   length (Terminal spec_engine text) = length text \<and>
   list_all chr_visible (terminal (build spec_engine self)) \<and>
   length (terminal (build spec_engine self)) = length (terminal self) \<and>
   (\<exists>it. HorizontalCycleIterator_init spec_engine \<lparr>input_data = text, effect_config = cfg\<rparr> = Inr it \<and>
      list_all chr_visible (terminal it) \<and> length (terminal it) = length text) \<and>
   map chr_visible (Terminal spec_engine ''AB'') = [False, False] \<and>
   map chr_visible (terminal iterator_AB) = [True, True]"
  by (simp add: HorizontalCycleIterator_init_def build_def spec_defs list_all_iff iterator_AB_eq)

subsection \<open>C7: equal inputs give equal frames\<close>

text \<open>
  C7: two independent runs of the effect, on effects with the same input text and the same
  configuration and for the same number of ticks, show the same sequence of frames. Each
  run is a derivation of its own, free to take any outcome the library allows at every
  call; whenever the library's calls are deterministic, the two sequences are equal. The
  effect itself reads no clock, no random source and no input, and visits the characters
  in list order.
\<close>

theorem frames_deterministic:
  assumes "deterministic_library lib"
    and "input_data e1 = input_data e2" and "effect_config e1 = effect_config e2"
    and "effect_run lib e1 n shown1" and "effect_run lib e2 n shown2"
  shows "shown1 = shown2"
proof -
  have "e1 = e2" using assms(2,3) by simp
  from assms(4) obtain s1 where r1: "init_run lib e1 s1" "pull_run lib n s1 shown1"
    by (auto elim: effect_run.cases)
  from assms(5) \<open>e1 = e2\<close> obtain s2 where r2: "init_run lib e1 s2" "pull_run lib n s2 shown2"
    by (auto elim: effect_run.cases)
  have "s1 = s2" using assms(1) r1(1) r2(1) by (rule init_run_deterministic)
  with r2(2) have "pull_run lib n s1 shown2" by simp
  with assms(1) r1(2) show ?thesis by (rule pull_run_deterministic)
qed

theorem frames_deterministic_witness:
  "deterministic_library (library_of spec_engine) \<and>
   input_data effect_AB = input_data \<lparr>input_data = ''AB'', effect_config = \<lparr>speed = 1 / 10, amplitude = 5\<rparr>\<rparr> \<and>
   effect_config effect_AB = effect_config \<lparr>input_data = ''AB'', effect_config = \<lparr>speed = 1 / 10, amplitude = 5\<rparr>\<rparr> \<and>
   effect_run (library_of spec_engine) effect_AB (Suc (Suc 0)) [''AB'', ''AB''] \<and>
   effect_run (library_of spec_engine) \<lparr>input_data = ''AB'', effect_config = \<lparr>speed = 1 / 10, amplitude = 5\<rparr>\<rparr>
     (Suc (Suc 0)) [''AB'', ''AB'']"
proof -
  have d: "deterministic_library (library_of spec_engine)" by (rule library_of_deterministic)
  have i: "input_data effect_AB = input_data \<lparr>input_data = ''AB'', effect_config = \<lparr>speed = 1 / 10, amplitude = 5\<rparr>\<rparr>"
    by (simp add: effect_AB_def)
  have c: "effect_config effect_AB = effect_config \<lparr>input_data = ''AB'', effect_config = \<lparr>speed = 1 / 10, amplitude = 5\<rparr>\<rparr>"
    by (simp add: effect_AB_def default_config_def)
  have r1: "effect_run (library_of spec_engine) effect_AB (Suc (Suc 0)) [''AB'', ''AB'']"
    using effect_run_run_effect [OF run_effect_AB] by simp
  have r2: "effect_run (library_of spec_engine)
     \<lparr>input_data = ''AB'', effect_config = \<lparr>speed = 1 / 10, amplitude = 5\<rparr>\<rparr> (Suc (Suc 0)) [''AB'', ''AB'']"
    using r1 by (simp add: effect_AB_def default_config_def)
  show ?thesis using d i c r1 r2 frames_deterministic [OF d i c r1 r2] by simp
qed

subsection \<open>C8: the sequence never ends\<close>

text \<open>
  C8: construction returns an iterator, and for every \<open>n\<close> the call number \<open>n\<close> returns a
  frame, namely the rendering of the characters as that call leaves them; from any iterator
  state a call returns a frame and never StopIteration. This holds for every configuration,
  every input text and every library.
\<close>

theorem never_stops:
  "(\<exists>self. HorizontalCycleIterator_init eng effect = Inr self \<and>
      (\<forall>n. fst (HorizontalCycleIterator_next eng (ticks eng n self)) =
            Inr (frame eng (terminal (ticks eng (Suc n) self))))) \<and>
   (\<exists>rendered. fst (HorizontalCycleIterator_next eng s) = Inr rendered)"
  by (simp add: HorizontalCycleIterator_init_def next_returns_frame)

subsection \<open>C9: speed and amplitude do not reach the frames\<close>

text \<open>
  C9: for one input text, any two configurations give the same sequence of frames:
  speed and amplitude are stored by the constructor and never read.
\<close>

theorem frames_ignore_speed_and_amplitude:
  "run_effect eng \<lparr>input_data = text, effect_config = cfg1\<rparr> n =
   run_effect eng \<lparr>input_data = text, effect_config = cfg2\<rparr> n"
  by (simp add: run_effect_def HorizontalCycleIterator_init_def build_def frames_display)

subsection \<open>C10: the motion fields are never written\<close>

text \<open>
  C10: after any number of calls the offset is still 0 and the direction still 1, and a
  call changes nothing of the iterator but its characters and its working set.
\<close>

theorem motion_state_untouched:
  "(\<exists>self. HorizontalCycleIterator_init eng effect = Inr self \<and>
      (\<forall>n. current_offset (ticks eng n self) = 0 \<and> direction (ticks eng n self) = 1)) \<and>
   snd (HorizontalCycleIterator_next eng s) =
     s\<lparr>terminal := terminal (snd (HorizontalCycleIterator_next eng s)),
       active_characters := active_characters (snd (HorizontalCycleIterator_next eng s))\<rparr>"
  by (simp add: HorizontalCycleIterator_init_def build_def ticks_motion next_explicit split: prod.split)

end
